theory Spec2Isabelle
  imports Main "HOL-Library.AList"
begin

section \<open>Errors and Python values\<close>

text \<open>
  Every exception that \<^verbatim>\<open>devopstemplate/template.py\<close> or the library calls it makes can
  raise is a constructor; the argument is the path, key or name the exception is about.
  \<^verbatim>\<open>SkipFileError\<close> is the class declared at the top of the source file.
\<close>

datatype error =
    KeyError string
  | FileNotFoundError string
  | FileExistsError string
  | SkipFileError string
  | NotADirectoryError string
  | IsADirectoryError string
  | UndefinedError string
  | TemplateNotFound string
  | TemplateSyntaxError string
  | OutsideFragment string

text \<open>
  A configuration dictionary holds strings and booleans (see the dictionaries built in
  \<^verbatim>\<open>tests/test_template.py\<close>). A Python dict keeps insertion order and has unique
  keys: it is an association list read with \<^const>\<open>map_of\<close>.
\<close>

datatype pyval = Str string | Bool bool

type_synonym pydict = "(string \<times> pyval) list"

fun truthy :: "pyval \<Rightarrow> bool" where
  "truthy (Bool b) = b"
| "truthy (Str s) = (s \<noteq> [])"

fun py_str :: "pyval \<Rightarrow> string" where
  "py_str (Str s) = s"
| "py_str (Bool b) = (if b then ''True'' else ''False'')"

section \<open>Paths: \<^verbatim>\<open>os.path.join\<close>, \<^verbatim>\<open>os.path.dirname\<close>\<close>

text \<open>
  \<^verbatim>\<open>posixpath.join(a, b)\<close>: an absolute second argument discards the first; an empty
  first argument, or one ending in a slash, takes no separator.
\<close>

definition path_join :: "string \<Rightarrow> string \<Rightarrow> string" where
  "path_join a b =
     (if b \<noteq> [] \<and> hd b = CHR ''/'' then b
      else if a = [] \<or> last a = CHR ''/'' then a @ b
      else a @ ''/'' @ b)"

definition rstrip_slash :: "string \<Rightarrow> string" where
  "rstrip_slash s = rev (dropWhile (\<lambda>c. c = CHR ''/'') (rev s))"

text \<open>
  \<^verbatim>\<open>posixpath.dirname(p)\<close>: the text up to and including the last slash, with the
  trailing slashes removed unless it consists of slashes only.
\<close>

definition dirname :: "string \<Rightarrow> string" where
  "dirname p =
     (let head = rev (dropWhile (\<lambda>c. c \<noteq> CHR ''/'') (rev p)) in
      if head \<noteq> [] \<and> \<not> list_all (\<lambda>c. c = CHR ''/'') head then rstrip_slash head
      else head)"

section \<open>The filesystem\<close>

text \<open>
  The filesystem the program runs against. A path string names a node through its
  components: the names between slashes, with empty names and \<^verbatim>\<open>.\<close> dropped, together
  with whether the string starts at the root. The root and the working directory (no
  components) are directories that always exist. Symbolic links and \<^verbatim>\<open>..\<close> are not
  interpreted (\<^verbatim>\<open>..\<close> is a name like any other).

  A regular file holds either text or the JSON document \<^verbatim>\<open>json.dump\<close> wrote for a
  dictionary; \<^verbatim>\<open>json.load\<close> of such a document gives the dictionary back, which is the
  library's contract for dictionaries of strings and booleans and is not re-proved here.

  The field \<open>journal\<close> records every call that changes the disk, in order. It is how
  ``performs no write'' is stated: a call that rewrites a file with the bytes it already
  has still adds an entry.
\<close>

type_synonym path = "bool \<times> string list"

datatype content = Text string | Json pydict

datatype node = Dir | File content

datatype syscall = Mkdir path | WriteFile path

record filesystem =
  nodes :: "(path \<times> node) list"
  journal :: "syscall list"

fun split_slash :: "string \<Rightarrow> string \<Rightarrow> string list" where
  "split_slash acc [] = [rev acc]"
| "split_slash acc (c # cs) =
     (if c = CHR ''/'' then rev acc # split_slash [] cs else split_slash (c # acc) cs)"

definition components :: "string \<Rightarrow> path" where
  "components p =
     (p \<noteq> [] \<and> hd p = CHR ''/'',
      filter (\<lambda>c. c \<noteq> [] \<and> c \<noteq> ''.'') (split_slash [] p))"

definition stat :: "filesystem \<Rightarrow> path \<Rightarrow> node option" where
  "stat fs q = (if snd q = [] then Some Dir else map_of (nodes fs) q)"

text \<open>\<^verbatim>\<open>os.path.exists(p)\<close>; the empty string names nothing.\<close>

definition path_exists :: "filesystem \<Rightarrow> string \<Rightarrow> bool" where
  "path_exists fs p = (p \<noteq> [] \<and> stat fs (components p) \<noteq> None)"

definition put_node :: "path \<Rightarrow> node \<Rightarrow> syscall \<Rightarrow> filesystem \<Rightarrow> filesystem" where
  "put_node q n c fs =
     fs\<lparr>nodes := AList.update q n (nodes fs), journal := journal fs @ [c]\<rparr>"

text \<open>
  \<^verbatim>\<open>os.makedirs(name)\<close>: every missing directory on the way down is created; the leaf
  must not exist. A failure keeps what was created before it.
\<close>

fun mkdir_chain ::
  "string \<Rightarrow> bool \<Rightarrow> string list \<Rightarrow> string list \<Rightarrow> filesystem \<Rightarrow> (error + unit) \<times> filesystem"
where
  "mkdir_chain name ab pre [] fs = (Inr (), fs)"
| "mkdir_chain name ab pre (c # cs) fs =
     (let q = (ab, pre @ [c]) in
      case stat fs q of
        None \<Rightarrow> mkdir_chain name ab (pre @ [c]) cs (put_node q Dir (Mkdir q) fs)
      | Some Dir \<Rightarrow>
          if cs = [] then (Inl (FileExistsError name), fs)
          else mkdir_chain name ab (pre @ [c]) cs fs
      | Some (File x) \<Rightarrow>
          if cs = [] then (Inl (FileExistsError name), fs)
          else (Inl (NotADirectoryError name), fs))"

definition makedirs :: "string \<Rightarrow> filesystem \<Rightarrow> (error + unit) \<times> filesystem" where
  "makedirs name fs =
     (if name = [] then (Inl (FileNotFoundError name), fs)
      else if snd (components name) = [] then (Inl (FileExistsError name), fs)
      else mkdir_chain name (fst (components name)) [] (snd (components name)) fs)"

text \<open>
  \<^verbatim>\<open>open(name, 'w')\<close>: the parent must be a directory and the name must not be one;
  the file is created or truncated, and the node it names is returned for the writes
  that follow (\<open>set_content\<close>).
\<close>

definition open_w :: "string \<Rightarrow> filesystem \<Rightarrow> (error + path) \<times> filesystem" where
  "open_w name fs =
     (let q = components name in
      if name = [] then (Inl (FileNotFoundError name), fs)
      else if snd q = [] then (Inl (IsADirectoryError name), fs)
      else case stat fs (fst q, butlast (snd q)) of
        None \<Rightarrow> (Inl (FileNotFoundError name), fs)
      | Some (File x) \<Rightarrow> (Inl (NotADirectoryError name), fs)
      | Some Dir \<Rightarrow>
          (case stat fs q of
             Some Dir \<Rightarrow> (Inl (IsADirectoryError name), fs)
           | _ \<Rightarrow> (Inr q, put_node q (File (Text [])) (WriteFile q) fs)))"

definition set_content :: "path \<Rightarrow> content \<Rightarrow> filesystem \<Rightarrow> filesystem" where
  "set_content q x fs = fs\<lparr>nodes := AList.update q (File x) (nodes fs)\<rparr>"

text \<open>
  \<^verbatim>\<open>open(name, 'r+')\<close>: the file must exist and be a regular file; its content is
  returned for reading and rewriting.
\<close>

definition open_rplus :: "string \<Rightarrow> filesystem \<Rightarrow> error + path \<times> content" where
  "open_rplus name fs =
     (if name = [] then Inl (FileNotFoundError name)
      else case stat fs (components name) of
        None \<Rightarrow> Inl (FileNotFoundError name)
      | Some Dir \<Rightarrow> Inl (IsADirectoryError name)
      | Some (File x) \<Rightarrow> Inr (components name, x))"

section \<open>Templates: the fragment of Jinja2 the engine is verified on\<close>

text \<open>
  Jinja2 is a library the program imports; its behaviour is taken from its documentation
  for the fragment below and nothing is claimed outside it. A template of the fragment
  is literal text and \<^verbatim>\<open>{{ name }}\<close> or \<^verbatim>\<open>{{ name.attr }}\<close> placeholders. A source
  with a block or comment tag, a filter, whitespace control, a reserved or global name,
  or a character outside printable ASCII gets \<open>OutsideFragment\<close>, which stands for
  ``not modelled'', never for a result of the library.

  The library's default for a name that the context does not define is the
  \<^verbatim>\<open>Undefined\<close> object: it prints as the empty string and raises
  \<^verbatim>\<open>UndefinedError\<close> when an attribute is read from it. Both
  \<^verbatim>\<open>Template(...)\<close> (line 216) and \<^verbatim>\<open>Environment(...)\<close> (lines 49-51) are called
  without an \<^verbatim>\<open>undefined=\<close> argument, so that default applies.
\<close>

datatype expr = Name string | Getattr expr string

datatype tnode = TemplateData string | Output expr

type_synonym template = "tnode list"

datatype val = Undefined string | Val pyval

definition printable :: "char \<Rightarrow> bool" where
  "printable c = (32 \<le> (of_char c :: nat) \<and> (of_char c :: nat) \<le> 126)"

definition ident_start :: "char \<Rightarrow> bool" where
  "ident_start c =
     (let n = (of_char c :: nat) in (65 \<le> n \<and> n \<le> 90) \<or> (97 \<le> n \<and> n \<le> 122) \<or> n = 95)"

definition ident_char :: "char \<Rightarrow> bool" where
  "ident_char c = (ident_start c \<or> (48 \<le> (of_char c :: nat) \<and> (of_char c :: nat) \<le> 57))"

text \<open>
  Words the expression grammar reads as constants or operators, and the names the
  default environment defines globally or treats specially: none of them is a plain
  variable reference.
\<close>

definition reserved_names :: "string list" where
  "reserved_names =
     [''true'', ''false'', ''none'', ''True'', ''False'', ''None'',
      ''and'', ''or'', ''not'', ''in'', ''is'', ''if'', ''else'',
      ''self'', ''loop'', ''super'', ''caller'', ''varargs'', ''kwargs'',
      ''range'', ''dict'', ''lipsum'', ''cycler'', ''joiner'', ''namespace'']"

definition is_identifier :: "string \<Rightarrow> bool" where
  "is_identifier s =
     (s \<noteq> [] \<and> ident_start (hd s) \<and> list_all ident_char s \<and> s \<notin> set reserved_names)"

fun split_dot :: "string \<Rightarrow> string \<Rightarrow> string list" where
  "split_dot acc [] = [rev acc]"
| "split_dot acc (c # cs) =
     (if c = CHR ''.'' then rev acc # split_dot [] cs else split_dot (c # acc) cs)"

definition strip_spaces :: "string \<Rightarrow> string" where
  "strip_spaces s =
     rev (dropWhile (\<lambda>c. c = CHR '' '') (rev (dropWhile (\<lambda>c. c = CHR '' '') s)))"

definition parse_expr :: "string \<Rightarrow> error + expr" where
  "parse_expr s =
     (case split_dot [] (strip_spaces s) of
        [] \<Rightarrow> Inl (OutsideFragment s)
      | n # attrs \<Rightarrow>
          if is_identifier n \<and> list_all is_identifier attrs
          then Inr (foldl Getattr (Name n) attrs)
          else Inl (OutsideFragment s))"

text \<open>
  The lexer: \<open>inside\<close> says whether the text read so far follows an unclosed
  \<^verbatim>\<open>{{\<close>; \<open>acc\<close> is the text of the current piece, reversed.
\<close>

fun tokenize :: "bool \<Rightarrow> string \<Rightarrow> string \<Rightarrow> error + (bool \<times> string) list" where
  "tokenize inside acc [] =
     (if inside then Inl (TemplateSyntaxError (rev acc)) else Inr [(False, rev acc)])"
| "tokenize inside acc [c] = tokenize inside (c # acc) []"
| "tokenize inside acc (c # d # cs) =
     (if \<not> inside \<and> c = CHR ''{'' \<and> d = CHR ''{'' then
        (case tokenize True [] cs of
           Inl e \<Rightarrow> Inl e
         | Inr ts \<Rightarrow> Inr ((False, rev acc) # ts))
      else if \<not> inside \<and> c = CHR ''{'' \<and> (d = CHR ''%'' \<or> d = CHR ''#'') then
        Inl (OutsideFragment [c, d])
      else if inside \<and> c = CHR ''}'' \<and> d = CHR ''}'' then
        (case tokenize False [] cs of
           Inl e \<Rightarrow> Inl e
         | Inr ts \<Rightarrow> Inr ((True, rev acc) # ts))
      else tokenize inside (c # acc) (d # cs))"

fun parse_tokens :: "(bool \<times> string) list \<Rightarrow> error + template" where
  "parse_tokens [] = Inr []"
| "parse_tokens ((is_expr, s) # ts) =
     (case parse_tokens ts of
        Inl e \<Rightarrow> (if is_expr then (case parse_expr s of Inl e' \<Rightarrow> Inl e' | Inr x \<Rightarrow> Inl e)
                  else Inl e)
      | Inr ns \<Rightarrow>
          if is_expr then (case parse_expr s of Inl e \<Rightarrow> Inl e | Inr x \<Rightarrow> Inr (Output x # ns))
          else if s = [] then Inr ns
          else Inr (TemplateData s # ns))"

text \<open>\<^verbatim>\<open>jinja2.Template(source)\<close>.\<close>

definition Template :: "string \<Rightarrow> error + template" where
  "Template source =
     (if \<not> list_all printable source then Inl (OutsideFragment source)
      else case tokenize False [] source of
        Inl e \<Rightarrow> Inl e
      | Inr ts \<Rightarrow> parse_tokens ts)"

fun eval_expr :: "pydict \<Rightarrow> expr \<Rightarrow> error + val" where
  "eval_expr ctx (Name n) =
     (case map_of ctx n of None \<Rightarrow> Inr (Undefined n) | Some v \<Rightarrow> Inr (Val v))"
| "eval_expr ctx (Getattr e a) =
     (case eval_expr ctx e of
        Inl err \<Rightarrow> Inl err
      | Inr (Undefined n) \<Rightarrow> Inl (UndefinedError n)
      | Inr (Val v) \<Rightarrow> Inl (OutsideFragment a))"

text \<open>\<^verbatim>\<open>markupsafe.escape\<close>, which autoescaping applies to every printed value.\<close>

definition escape :: "string \<Rightarrow> string" where
  "escape s =
     concat (map (\<lambda>c. if c = CHR ''&'' then ''&amp;''
                       else if c = CHR ''<'' then ''&lt;''
                       else if c = CHR ''>'' then ''&gt;''
                       else if c = CHR 0x27 then ''&#39;''
                       else if c = CHR 0x22 then ''&#34;''
                       else [c]) s)"

fun to_output :: "bool \<Rightarrow> val \<Rightarrow> string" where
  "to_output autoescape (Undefined n) = []"
| "to_output autoescape (Val v) = (if autoescape then escape (py_str v) else py_str v)"

text \<open>
  The pieces a template yields, in order, up to the first expression that raises, and
  that exception if there is one: what \<^verbatim>\<open>template.stream(**context)\<close> produces. A
  piece is a run of literal text or the value of one placeholder, as the current
  versions of the library generate them.
\<close>

fun generate :: "bool \<Rightarrow> pydict \<Rightarrow> template \<Rightarrow> string list \<times> error option" where
  "generate autoescape ctx [] = ([], None)"
| "generate autoescape ctx (TemplateData s # ns) =
     (case generate autoescape ctx ns of (ps, r) \<Rightarrow> (s # ps, r))"
| "generate autoescape ctx (Output e # ns) =
     (case eval_expr ctx e of
        Inl err \<Rightarrow> ([], Some err)
      | Inr v \<Rightarrow> (case generate autoescape ctx ns of (ps, r) \<Rightarrow> (to_output autoescape v # ps, r)))"

text \<open>\<^verbatim>\<open>template.render(**context)\<close>: the whole text, or the exception.\<close>

definition Template_render :: "bool \<Rightarrow> template \<Rightarrow> pydict \<Rightarrow> error + string" where
  "Template_render autoescape t ctx =
     (case generate autoescape ctx t of
        (ps, None) \<Rightarrow> Inr (concat ps)
      | (ps, Some e) \<Rightarrow> Inl e)"

text \<open>
  \<^verbatim>\<open>select_autoescape(enabled_extensions, disabled_extensions, default_for_string,
  default)\<close>: the function of the template name the environment asks.
\<close>

definition lower :: "string \<Rightarrow> string" where
  "lower s =
     map (\<lambda>c. if 65 \<le> (of_char c :: nat) \<and> (of_char c :: nat) \<le> 90
               then char_of ((of_char c :: nat) + 32) else c) s"

definition endswith :: "string \<Rightarrow> string \<Rightarrow> bool" where
  "endswith s suffix = (length suffix \<le> length s \<and> drop (length s - length suffix) s = suffix)"

definition select_autoescape ::
  "string list \<Rightarrow> string list \<Rightarrow> bool \<Rightarrow> bool \<Rightarrow> string option \<Rightarrow> bool"
where
  "select_autoescape enabled_extensions disabled_extensions default_for_string dflt template_name =
     (case template_name of
        None \<Rightarrow> default_for_string
      | Some name \<Rightarrow>
          if list_ex (\<lambda>x. endswith (lower name) (''.'' @ lower x)) enabled_extensions then True
          else if list_ex (\<lambda>x. endswith (lower name) (''.'' @ lower x)) disabled_extensions
            then False
          else dflt)"

text \<open>
  The environment: the templates its loader finds, by name, and its autoescape function.
  The files under \<^verbatim>\<open>devopstemplate/template/\<close> are not among the sources, so the
  loader's content is a parameter; it holds the templates in parsed form.
\<close>

record environment =
  loader :: "(string \<times> template) list"
  autoescape :: "string option \<Rightarrow> bool"

definition get_template :: "environment \<Rightarrow> string \<Rightarrow> error + bool \<times> template" where
  "get_template e name =
     (case map_of (loader e) name of
        None \<Rightarrow> Inl (TemplateNotFound name)
      | Some t \<Rightarrow> Inr (autoescape e (Some name), t))"

section \<open>The distribution package\<close>

text \<open>
  Modelled from the spec: \<^verbatim>\<open>devopstemplate.pkg\<close>, \<^verbatim>\<open>template.json\<close>, the files under
  \<^verbatim>\<open>template/\<close> and \<^verbatim>\<open>devopstemplate.makefile\<close> are not among the sources. The
  package is a parameter: the catalog (component name to ordered list of path templates),
  the bundled content templates by the identifier the catalog uses for them, and the
  rewriter that the build-file reconfiguration hands the Makefile's content and the
  variable assignments to. \<^verbatim>\<open>pkg.exists\<close> tells whether a file of that name is bundled.
\<close>

record package =
  template_json :: "(string \<times> string list) list"
  template_dir :: "(string \<times> template) list"
  makefile_write :: "content \<Rightarrow> (string \<times> string) list \<Rightarrow> content"

definition pkg_exists :: "package \<Rightarrow> string \<Rightarrow> bool" where
  "pkg_exists P fpath = (fpath \<in> set (map (\<lambda>(n, t). path_join ''template'' n) (template_dir P)))"

section \<open>The session: \<^verbatim>\<open>DevOpsTemplate\<close>\<close>

text \<open>
  The fields \<^verbatim>\<open>__init__\<close> sets (lines 42-51). An operation that fails keeps the changes
  it made to the disk before the exception: every operation returns the filesystem
  together with its result.
\<close>

record session =
  projectdir :: string
  overwrite :: bool
  skip :: bool
  dry_run :: bool
  template_dict :: "(string \<times> string list) list"
  template_dname :: string
  env :: environment

type_synonym action = "filesystem \<Rightarrow> (error + unit) \<times> filesystem"

text \<open>
  \<^verbatim>\<open>__check_project_file\<close> (lines 273-293): two tests in this order, each reading the
  disk; \<^verbatim>\<open>True\<close> is returned otherwise.
\<close>

definition check_project_file :: "session \<Rightarrow> filesystem \<Rightarrow> string \<Rightarrow> error + bool" where
  "check_project_file self fs project_fpath =
     (if path_exists fs project_fpath \<and> skip self then Inl (SkipFileError project_fpath)
      else if path_exists fs project_fpath \<and> \<not> overwrite self
        then Inl (FileExistsError project_fpath)
      else Inr True)"

text \<open>What \<^verbatim>\<open>except SkipFileError\<close> catches.\<close>

fun is_SkipFileError :: "error \<Rightarrow> bool" where
  "is_SkipFileError (SkipFileError p) = True"
| "is_SkipFileError e = False"

text \<open>\<^verbatim>\<open>__mkdir\<close> (lines 219-232).\<close>

definition mkdir :: "session \<Rightarrow> string \<Rightarrow> action" where
  "mkdir self project_dname fs =
     (let project_dpath = path_join (projectdir self) project_dname in
      if \<not> path_exists fs project_dpath then
        (if \<not> dry_run self then makedirs project_dpath fs else (Inr (), fs))
      else (Inr (), fs))"

text \<open>
  \<^verbatim>\<open>__init__\<close> (lines 28-53): the fields, then \<^verbatim>\<open>self.__mkdir(projectdirectory)\<close>. An
  exception of that call leaves no object. The environment is built with
  \<^verbatim>\<open>select_autoescape(default=True)\<close>: the other three arguments keep the library's
  defaults.
\<close>

definition Environment :: "package \<Rightarrow> environment" where
  "Environment P =
     \<lparr>loader = template_dir P,
      autoescape = select_autoescape [''html'', ''htm'', ''xml''] [] True True\<rparr>"

definition new_session :: "package \<Rightarrow> string \<Rightarrow> bool \<Rightarrow> bool \<Rightarrow> bool \<Rightarrow> session" where
  "new_session P projectdirectory overwrite_exists skip_exists dry =
     \<lparr>projectdir = projectdirectory, overwrite = overwrite_exists, skip = skip_exists,
      dry_run = dry, template_dict = template_json P, template_dname = ''template'',
      env = Environment P\<rparr>"


text \<open>
  Lines 269-270: the target is opened for writing, which creates or truncates it, and
  the stream is written piece by piece; leaving the \<^verbatim>\<open>with\<close> block closes the file
  with what was written so far, also when a piece raised.
\<close>

definition dump :: "bool \<times> template \<Rightarrow> pydict \<Rightarrow> string \<Rightarrow> action" where
  "dump tmpl context project_fpath fs =
     (case open_w project_fpath fs of
        (Inl e, fs1) \<Rightarrow> (Inl e, fs1)
      | (Inr q, fs1) \<Rightarrow>
          (case generate (fst tmpl) context (snd tmpl) of
             (ps, None) \<Rightarrow> (Inr (), set_content q (Text (concat ps)) fs1)
           | (ps, Some e) \<Rightarrow> (Inl e, set_content q (Text (concat ps)) fs1)))"

text \<open>\<^verbatim>\<open>__render\<close> (lines 234-271).\<close>

definition render :: "package \<Rightarrow> session \<Rightarrow> string \<Rightarrow> string \<Rightarrow> pydict \<Rightarrow> action" where
  "render P self pkg_fname project_fname context fs =
     (let pkg_fpath = path_join (template_dname self) pkg_fname in
      if \<not> pkg_exists P pkg_fpath then (Inl (FileNotFoundError pkg_fpath), fs)
      else
        let project_fpath = path_join (projectdir self) project_fname in
        case check_project_file self fs project_fpath of
          Inl e \<Rightarrow> if is_SkipFileError e then (Inr (), fs) else (Inl e, fs)
        | Inr ok \<Rightarrow>
            if \<not> dry_run self then
              (let parent_dname = dirname project_fpath in
               case (if \<not> path_exists fs parent_dname then makedirs parent_dname fs
                     else (Inr (), fs)) of
                 (Inl e, fs1) \<Rightarrow> (Inl e, fs1)
               | (Inr u, fs1) \<Rightarrow>
                   (case get_template (env self) pkg_fname of
                      Inl e \<Rightarrow> (Inl e, fs1)
                    | Inr tmpl \<Rightarrow> dump tmpl context project_fpath fs1))
            else (Inr (), fs))"

text \<open>
  \<^verbatim>\<open>__install\<close> (lines 203-217): the loop over the component's file list.
  \<^verbatim>\<open>Template(template_fpath)\<close> is built outside any environment, so the path is
  rendered without autoescaping.
\<close>

definition render_path :: "string \<Rightarrow> pydict \<Rightarrow> error + string" where
  "render_path template_fpath context =
     (case Template template_fpath of
        Inl e \<Rightarrow> Inl e
      | Inr t \<Rightarrow> Template_render False t context)"

fun install_files :: "package \<Rightarrow> session \<Rightarrow> string list \<Rightarrow> pydict \<Rightarrow> action" where
  "install_files P self [] context fs = (Inr (), fs)"
| "install_files P self (template_fpath # file_list) context fs =
     (case render_path template_fpath context of
        Inl e \<Rightarrow> (Inl e, fs)
      | Inr project_fpath \<Rightarrow>
          (case render P self template_fpath project_fpath context fs of
             (Inl e, fs') \<Rightarrow> (Inl e, fs')
           | (Inr u, fs') \<Rightarrow> install_files P self file_list context fs'))"

definition install :: "package \<Rightarrow> session \<Rightarrow> string \<Rightarrow> pydict \<Rightarrow> action" where
  "install P self template_component context fs =
     (case map_of (template_dict self) template_component of
        None \<Rightarrow> (Inl (KeyError template_component), fs)
      | Some file_list \<Rightarrow> install_files P self file_list context fs)"

text \<open>\<^verbatim>\<open>__configure_makefile\<close> (lines 295-310). It does not read \<^verbatim>\<open>__dry_run\<close>.\<close>

definition configure_makefile :: "package \<Rightarrow> session \<Rightarrow> bool \<Rightarrow> action" where
  "configure_makefile P self use_sonar fs =
     (let var_value_dict = [(''DOCKERSONAR'', if use_sonar then ''True'' else ''False'')] in
      case open_rplus (path_join (projectdir self) ''Makefile'') fs of
        Inl e \<Rightarrow> (Inl e, fs)
      | Inr (q, x) \<Rightarrow>
          (Inr (), put_node q (File (makefile_write P x var_value_dict)) (WriteFile q) fs))"

section \<open>The operations\<close>

text \<open>
  Statements in sequence, stopping at the first exception; a dictionary read
  \<^verbatim>\<open>projectconfig[key]\<close>, which raises \<^verbatim>\<open>KeyError\<close> for a missing key; and an
  \<^verbatim>\<open>if\<close> without \<^verbatim>\<open>else\<close>.
\<close>

fun run :: "action list \<Rightarrow> action" where
  "run [] fs = (Inr (), fs)"
| "run (a # as) fs =
     (case a fs of
        (Inl e, fs') \<Rightarrow> (Inl e, fs')
      | (Inr u, fs') \<Rightarrow> run as fs')"

definition getitem :: "pydict \<Rightarrow> string \<Rightarrow> (pyval \<Rightarrow> action) \<Rightarrow> action" where
  "getitem d k f fs = (case map_of d k of None \<Rightarrow> (Inl (KeyError k), fs) | Some v \<Rightarrow> f v fs)"

definition py_if :: "bool \<Rightarrow> action \<Rightarrow> action" where
  "py_if b a fs = (if b then a fs else (Inr (), fs))"

text \<open>\<^verbatim>\<open>create\<close> (lines 55-98). Line 66 reads \<^verbatim>\<open>project_name\<close> for the log.\<close>

definition create :: "package \<Rightarrow> session \<Rightarrow> pydict \<Rightarrow> action" where
  "create P self projectconfig =
     run [getitem projectconfig ''project_name'' (\<lambda>v. run []),
          getitem projectconfig ''add_scripts_dir'' (\<lambda>v. py_if (truthy v) (mkdir self ''scripts'')),
          getitem projectconfig ''add_docs_dir'' (\<lambda>v. py_if (truthy v) (mkdir self ''docs'')),
          install P self ''src'' projectconfig,
          install P self ''tests'' projectconfig,
          install P self ''make'' projectconfig,
          install P self ''setuptools'' projectconfig,
          install P self ''docker'' projectconfig,
          getitem projectconfig ''no_gitignore_file''
            (\<lambda>v. py_if (\<not> truthy v) (install P self ''git'' projectconfig)),
          getitem projectconfig ''no_readme_file''
            (\<lambda>v. py_if (\<not> truthy v) (install P self ''readme'' projectconfig)),
          getitem projectconfig ''no_sonar''
            (\<lambda>v. run [py_if (\<not> truthy v) (install P self ''sonar'' projectconfig),
                       configure_makefile P self (\<not> truthy v)])]"

text \<open>\<^verbatim>\<open>manage\<close> (lines 170-201).\<close>

definition manage :: "package \<Rightarrow> session \<Rightarrow> pydict \<Rightarrow> action" where
  "manage P self projectconfig =
     run [getitem projectconfig ''add_scripts_dir'' (\<lambda>v. py_if (truthy v) (mkdir self ''scripts'')),
          getitem projectconfig ''add_docs_dir'' (\<lambda>v. py_if (truthy v) (mkdir self ''docs'')),
          getitem projectconfig ''add_gitignore_file''
            (\<lambda>v. py_if (truthy v) (install P self ''git'' projectconfig)),
          getitem projectconfig ''add_readme_file''
            (\<lambda>v. py_if (truthy v) (install P self ''readme'' projectconfig)),
          getitem projectconfig ''add_sonar''
            (\<lambda>v. py_if (truthy v)
                    (run [install P self ''sonar'' projectconfig,
                          configure_makefile P self True]))]"

text \<open>
  The two blocks of \<^verbatim>\<open>cookiecutter\<close> that write a file at the session root (lines
  119-126 and 130-138) differ in the path and the content only.
\<close>

definition write_root_file :: "session \<Rightarrow> string \<Rightarrow> content \<Rightarrow> action" where
  "write_root_file self fpath x fs =
     (case check_project_file self fs fpath of
        Inl e \<Rightarrow> if is_SkipFileError e then (Inr (), fs) else (Inl e, fs)
      | Inr ok \<Rightarrow>
          if \<not> dry_run self then
            (case open_w fpath fs of
               (Inl e, fs1) \<Rightarrow> (Inl e, fs1)
             | (Inr q, fs1) \<Rightarrow> (Inr (), set_content q x fs1))
          else (Inr (), fs))"

text \<open>Lines 153-154: every value becomes the marker that names its key.\<close>

definition cookiecutterconfig :: "pydict \<Rightarrow> pydict" where
  "cookiecutterconfig projectconfig =
     map (\<lambda>(key, v). (key, Str (''{{cookiecutter.'' @ key @ ''}}''))) projectconfig"

definition components_list :: "string list" where
  "components_list =
     [''src'', ''tests'', ''make'', ''setuptools'', ''git'', ''readme'', ''docker'', ''sonar'']"

text \<open>
  \<^verbatim>\<open>cookiecutter\<close> (lines 100-168). The project directory is a field the method
  changes at line 149 and restores at line 168, so the session is returned too: an
  exception between the two lines leaves the changed value.
\<close>

definition cookiecutter ::
  "package \<Rightarrow> session \<Rightarrow> pydict \<Rightarrow> filesystem \<Rightarrow> (error + unit) \<times> session \<times> filesystem"
where
  "cookiecutter P self projectconfig fs =
     (let cookiecutter_project_dname = ''{{cookiecutter.project_slug}}/'' in
      case run [write_root_file self (path_join (projectdir self) ''cookiecutter.json'')
                  (Json projectconfig),
                write_root_file self (path_join (projectdir self) ''README.md'')
                  (Text ''# Cookiecutter Template''),
                mkdir self cookiecutter_project_dname] fs of
        (Inl e, fs1) \<Rightarrow> (Inl e, self, fs1)
      | (Inr u, fs1) \<Rightarrow>
          (let cookiecutter_rootdir = projectdir self;
               self1 = self\<lparr>projectdir := path_join (projectdir self) cookiecutter_project_dname\<rparr>
           in case run (map (\<lambda>comp. install P self1 comp (cookiecutterconfig projectconfig))
                          components_list) fs1 of
                (Inl e, fs2) \<Rightarrow> (Inl e, self1, fs2)
              | (Inr u, fs2) \<Rightarrow> (Inr (), self1\<lparr>projectdir := cookiecutter_rootdir\<rparr>, fs2)))"

section \<open>Specification predicates and example data\<close>

text \<open>
  The target a path template of a component resolves to under the session's project
  directory, and what it means for that file to be installed already: its content
  template is bundled, its path renders, and the target exists on disk.
\<close>

definition target_of :: "session \<Rightarrow> pydict \<Rightarrow> string \<Rightarrow> error + string" where
  "target_of self context template_fpath =
     (case render_path template_fpath context of
        Inl e \<Rightarrow> Inl e
      | Inr project_fname \<Rightarrow> Inr (path_join (projectdir self) project_fname))"

definition installed :: "package \<Rightarrow> session \<Rightarrow> pydict \<Rightarrow> filesystem \<Rightarrow> string \<Rightarrow> bool" where
  "installed P self context fs template_fpath =
     (pkg_exists P (path_join (template_dname self) template_fpath) \<and>
      (case target_of self context template_fpath of
         Inl e \<Rightarrow> False
       | Inr p \<Rightarrow> path_exists fs p))"

text \<open>
  A small package and configuration for the concrete runs below. The catalog has the
  eight component names the operations use; the rewriter appends the assignments it is
  given to the Makefile's text.
\<close>

definition demo_pkg :: package where
  "demo_pkg =
     \<lparr>template_json =
        [(''src'', [''{{project_slug}}/__init__.py'']), (''tests'', []),
         (''make'', [''Makefile'']), (''setuptools'', [''setup.py'']), (''git'', []),
         (''readme'', [''README.md'']), (''docker'', []), (''sonar'', []),
         (''changes'', [''CHANGES.md''])],
      template_dir =
        [(''{{project_slug}}/__init__.py'', [TemplateData ''# '', Output (Name ''project_name'')]),
         (''Makefile'', [TemplateData ''NAME='', Output (Name ''project_slug'')]),
         (''setup.py'', [TemplateData ''description='', Output (Name ''project_description'')]),
         (''README.md'', [TemplateData ''# '', Output (Name ''project_name'')]),
         (''MANIFEST.in'', [TemplateData ''include README.md'']),
         (''CHANGES.md'',
          [TemplateData ''# Changes by '', Output (Getattr (Name ''author'') ''name''),
           TemplateData '' and others''])],
      makefile_write =
        (\<lambda>x vs. case x of
                   Text s \<Rightarrow> Text (s @ concat (map (\<lambda>(k, v). '' '' @ k @ ''='' @ v) vs))
                 | Json d \<Rightarrow> Json d)\<rparr>"

definition empty_fs :: filesystem where
  "empty_fs = \<lparr>nodes = [], journal = []\<rparr>"

definition demo_config :: pydict where
  "demo_config =
     [(''project_name'', Str ''Demo''), (''project_slug'', Str ''demo''),
      (''project_description'', Str ''a<b''),
      (''add_scripts_dir'', Bool True), (''add_docs_dir'', Bool False),
      (''no_gitignore_file'', Bool False), (''no_readme_file'', Bool False),
      (''no_sonar'', Bool False)]"

definition installed_fs :: filesystem where
  "installed_fs =
     snd (run [install demo_pkg (new_session demo_pkg ''/p'' False False False) ''src'' demo_config,
               install demo_pkg (new_session demo_pkg ''/p'' False False False) ''make'' demo_config]
            empty_fs)"

definition demo_session :: session where
  "demo_session = new_session demo_pkg ''/p'' False False False"

definition demo_skip_session :: session where
  "demo_skip_session = new_session demo_pkg ''/p'' True True False"

text \<open>
  A template whose placeholders are all plain names, and the text each of its nodes
  contributes when it is rendered: a name the context does not define contributes
  nothing.
\<close>

definition plain_placeholders :: "template \<Rightarrow> bool" where
  "plain_placeholders t =
     list_all (\<lambda>n. case n of
                      TemplateData s \<Rightarrow> True
                    | Output e \<Rightarrow> (case e of Name x \<Rightarrow> True | Getattr e' a \<Rightarrow> False)) t"

fun substitute :: "bool \<Rightarrow> pydict \<Rightarrow> tnode \<Rightarrow> string" where
  "substitute au ctx (TemplateData s) = s"
| "substitute au ctx (Output (Name x)) =
     (case map_of ctx x of None \<Rightarrow> [] | Some v \<Rightarrow> to_output au (Val v))"
| "substitute au ctx (Output (Getattr e a)) = []"



text \<open>The temporary directory of the repository's tests, holding one empty file.\<close>

definition tmp_fs :: filesystem where
  "tmp_fs =
     \<lparr>nodes = [((True, [''tmp'']), Dir), ((True, [''tmp'', ''t'']), Dir),
               ((True, [''tmp'', ''t'', ''tmp_file'']), File (Text []))],
      journal = []\<rparr>"




definition demo_dry_session :: session where
  "demo_dry_session = new_session demo_pkg ''/p'' True False True"

section \<open>The conflict check\<close>

text \<open>
  The three outcomes of the check as the specification names them: the write proceeds
  (\<open>Inr True\<close>), the file is skipped (\<open>SkipFileError\<close>), or the call fails because the
  target exists (\<open>FileExistsError\<close>).
\<close>

text \<open>
  C1. For every path and session the conflict check decides in this order: a path that
  does not exist proceeds; otherwise a set skip flag skips; otherwise a clear overwrite
  flag fails with the target-exists error; otherwise the write proceeds. With both flags
  set, every existing path is skipped.
\<close>

theorem check_project_file_order:
  "check_project_file self fs p =
     (if \<not> path_exists fs p then Inr True
      else if skip self then Inl (SkipFileError p)
      else if \<not> overwrite self then Inl (FileExistsError p)
      else Inr True)
   \<and> (path_exists fs p \<and> skip self \<and> overwrite self
        \<longrightarrow> check_project_file self fs p = Inl (SkipFileError p))"
  by (simp add: check_project_file_def)

theorem check_project_file_order_witness:
  "path_exists installed_fs ''/p/Makefile'' \<and> skip demo_skip_session
   \<and> overwrite demo_skip_session
   \<and> check_project_file demo_skip_session installed_fs ''/p/Makefile''
       = Inl (SkipFileError ''/p/Makefile'')"
proof -
  have e: "path_exists installed_fs ''/p/Makefile''"
    by code_simp
  have f: "skip demo_skip_session \<and> overwrite demo_skip_session"
    by (simp add: demo_skip_session_def new_session_def)
  from check_project_file_order [of demo_skip_session installed_fs "''/p/Makefile''"] e f
  show ?thesis by simp
qed

section \<open>Installing a component\<close>

text \<open>
  C9. A component name that the catalog does not have makes the installation fail with
  the key error for that name, and the filesystem, journal included, is the one before
  the call.
\<close>

theorem install_unknown_component:
  "map_of (template_dict self) template_component = None \<Longrightarrow>
   install P self template_component context fs = (Inl (KeyError template_component), fs)"
  by (simp add: install_def)

theorem install_unknown_component_witness:
  "install demo_pkg demo_session ''lint'' demo_config empty_fs
     = (Inl (KeyError ''lint''), empty_fs)"
  by (rule install_unknown_component) (simp add: demo_session_def new_session_def demo_pkg_def)

lemma render_exists_strict:
  assumes "pkg_exists P (path_join (template_dname self) t)"
    and "path_exists fs (path_join (projectdir self) p)"
    and "\<not> skip self" and "\<not> overwrite self"
  shows "render P self t p context fs = (Inl (FileExistsError (path_join (projectdir self) p)), fs)"
  using assms by (simp add: render_def check_project_file_def)

lemma render_exists_skip:
  assumes "pkg_exists P (path_join (template_dname self) t)"
    and "path_exists fs (path_join (projectdir self) p)"
    and "skip self"
  shows "render P self t p context fs = (Inr (), fs)"
  using assms by (simp add: render_def check_project_file_def)

text \<open>
  C7. When every file of a component is installed already and neither the skip nor the
  overwrite flag is set, installing the component again fails with the target-exists
  error for the target of the component's first file, and the filesystem, journal
  included, is the one before the call: nothing was written.
\<close>

theorem install_rerun_strict:
  assumes "map_of (template_dict self) c = Some (t # ts)"
    and "list_all (installed P self context fs) (t # ts)"
    and "\<not> skip self" and "\<not> overwrite self"
  shows "\<exists>p. target_of self context t = Inr p \<and>
             install P self c context fs = (Inl (FileExistsError p), fs)"
proof -
  from assms(2) have inst: "installed P self context fs t" by simp
  then obtain p where p: "target_of self context t = Inr p" and ex: "path_exists fs p"
    by (auto simp: installed_def split: sum.splits)
  from p obtain f where f: "render_path t context = Inr f"
    and pf: "p = path_join (projectdir self) f"
    by (auto simp: target_of_def split: sum.splits)
  from inst have pk: "pkg_exists P (path_join (template_dname self) t)"
    by (simp add: installed_def)
  have "render P self t f context fs = (Inl (FileExistsError p), fs)"
    using render_exists_strict [OF pk _ assms(3) assms(4)] ex pf by simp
  with f assms(1) have "install P self c context fs = (Inl (FileExistsError p), fs)"
    by (simp add: install_def)
  with p show ?thesis by blast
qed

theorem install_rerun_strict_witness:
  "install demo_pkg demo_session ''make'' demo_config installed_fs
     = (Inl (FileExistsError ''/p/Makefile''), installed_fs)"
proof -
  have a: "map_of (template_dict demo_session) ''make'' = Some [''Makefile'']"
    by code_simp
  have b: "list_all (installed demo_pkg demo_session demo_config installed_fs) [''Makefile'']"
    by code_simp
  have c: "\<not> skip demo_session" and d: "\<not> overwrite demo_session"
    by (simp_all add: demo_session_def new_session_def)
  have t: "target_of demo_session demo_config ''Makefile'' = Inr ''/p/Makefile''"
    by code_simp
  from install_rerun_strict [OF a b c d] t show ?thesis by simp
qed

lemma install_files_skip_all:
  assumes "list_all (installed P self context fs) ts" and "skip self"
  shows "install_files P self ts context fs = (Inr (), fs)"
  using assms(1)
proof (induction ts)
  case Nil
  then show ?case by simp
next
  case (Cons t ts)
  then have inst: "installed P self context fs t" by simp
  then obtain f where f: "render_path t context = Inr f"
    and ex: "path_exists fs (path_join (projectdir self) f)"
    by (auto simp: installed_def target_of_def split: sum.splits)
  from inst have pk: "pkg_exists P (path_join (template_dname self) t)"
    by (simp add: installed_def)
  have "render P self t f context fs = (Inr (), fs)"
    by (rule render_exists_skip [OF pk ex assms(2)])
  with f Cons show ?case by simp
qed

text \<open>
  C8. When every file of a component is installed already and the skip flag is set,
  installing the component again returns without an error and the filesystem, journal
  included, is the one before the call: no write, and every file keeps its content.
\<close>

theorem install_rerun_skip:
  assumes "map_of (template_dict self) c = Some ts"
    and "list_all (installed P self context fs) ts"
    and "skip self"
  shows "install P self c context fs = (Inr (), fs)"
  using assms by (simp add: install_def install_files_skip_all)

theorem install_rerun_skip_witness:
  "install demo_pkg demo_skip_session ''src'' demo_config installed_fs = (Inr (), installed_fs)"
proof -
  have a: "map_of (template_dict demo_skip_session) ''src'' = Some [''{{project_slug}}/__init__.py'']"
    by code_simp
  have b: "list_all (installed demo_pkg demo_skip_session demo_config installed_fs)
             [''{{project_slug}}/__init__.py'']"
    by code_simp
  have c: "skip demo_skip_session"
    by (simp add: demo_skip_session_def new_session_def)
  from install_rerun_skip [OF a b c] show ?thesis .
qed

section \<open>Creating a session\<close>








section \<open>Rendering\<close>

lemma generate_plain:
  "plain_placeholders t \<Longrightarrow> generate au ctx t = (map (substitute au ctx) t, None)"
proof (induction t)
  case Nil
  then show ?case by simp
next
  case (Cons n t)
  then have t: "generate au ctx t = (map (substitute au ctx) t, None)"
    by (simp add: plain_placeholders_def)
  show ?case
  proof (cases n)
    case (TemplateData s)
    with t show ?thesis by simp
  next
    case (Output e)
    with Cons.prems obtain x where "e = Name x"
      by (cases e) (auto simp: plain_placeholders_def)
    with Output t show ?thesis
      by (simp split: option.splits)
  qed
qed

lemma render_plain:
  "plain_placeholders t \<Longrightarrow> Template_render au t ctx = Inr (concat (map (substitute au ctx) t))"
  by (simp add: Template_render_def generate_plain)




text \<open>
  C5, as the specification states it, fails: the content template \<^verbatim>\<open>setup.py\<close>, a
  code template, is rendered with HTML escaping, so the description \<^verbatim>\<open>a<b\<close> arrives
  in the file as \<^verbatim>\<open>a&lt;b\<close>.
\<close>

theorem autoescape_code_template_counterexample:
  "(case get_template (Environment demo_pkg) ''setup.py'' of
      Inl e \<Rightarrow> Inl e
    | Inr (au, t) \<Rightarrow> Template_render au t demo_config) = Inr ''description=a&lt;b''"
  by code_simp

lemma select_autoescape_default_True:
  "select_autoescape exts [] dfs True (Some name) = True"
  by (simp add: select_autoescape_def)

text \<open>
  C5, amended. The environment the session builds applies HTML autoescaping to every
  content template whatever its name or file type: each template it loads is rendered
  with escaping on. (Path templates are rendered outside the environment, without
  escaping: see \<open>render_path\<close>.)
\<close>

theorem autoescape_every_template:
  "autoescape (Environment P) (Some name)
   \<and> (get_template (Environment P) name = Inr (au, t) \<longrightarrow>
        au \<and> (plain_placeholders t \<longrightarrow>
               Template_render au t ctx = Inr (concat (map (substitute True ctx) t))))"
  by (auto simp: Environment_def select_autoescape_default_True get_template_def render_plain
      split: option.splits)

theorem autoescape_every_template_witness:
  "get_template (Environment demo_pkg) ''Makefile''
     = Inr (True, [TemplateData ''NAME='', Output (Name ''project_slug'')])
   \<and> plain_placeholders [TemplateData ''NAME='', Output (Name ''project_slug'')]
   \<and> Template_render True [TemplateData ''NAME='', Output (Name ''project_slug'')]
        [(''project_slug'', Str ''R&D'')] = Inr ''NAME=R&amp;D''"
proof -
  have g: "get_template (Environment demo_pkg) ''Makefile''
     = Inr (True, [TemplateData ''NAME='', Output (Name ''project_slug'')])"
    by code_simp
  have p: "plain_placeholders [TemplateData ''NAME='', Output (Name ''project_slug'')]"
    by (simp add: plain_placeholders_def)
  have c: "concat (map (substitute True [(''project_slug'', Str ''R&D'')])
               [TemplateData ''NAME='', Output (Name ''project_slug'')]) = ''NAME=R&amp;D''"
    by code_simp
  from autoescape_every_template [of demo_pkg "''Makefile''" True
      "[TemplateData ''NAME='', Output (Name ''project_slug'')]" "[(''project_slug'', Str ''R&D'')]"]
    g p c
  show ?thesis by simp
qed






section \<open>Writes without the overwrite flag\<close>




































section \<open>Generating a cookiecutter template\<close>




section \<open>Dry runs\<close>

text \<open>
  Directory creation, rendering, component installation, the two root files of the
  cookiecutter generation and the generation as a whole read the dry-run flag: in a dry
  run they return the filesystem they were given.
\<close>

lemma mkdir_dry_run: "dry_run self \<Longrightarrow> mkdir self d fs = (Inr (), fs)"
  by (simp add: mkdir_def Let_def)

lemma render_dry_run: "dry_run self \<Longrightarrow> snd (render P self t f ctx fs) = fs"
  by (simp add: render_def Let_def split: sum.splits)

lemma install_files_dry_run: "dry_run self \<Longrightarrow> snd (install_files P self ts ctx fs) = fs"
proof (induction ts)
  case Nil
  then show ?case by simp
next
  case (Cons t ts)
  show ?case
  proof (cases "render_path t ctx")
    case (Inl e)
    then show ?thesis by simp
  next
    case (Inr f)
    obtain r1 fs1 where rn: "render P self t f ctx fs = (r1, fs1)"
      by (cases "render P self t f ctx fs")
    with render_dry_run [OF Cons.prems, of P t f ctx fs] have "fs1 = fs" by simp
    with Inr rn Cons show ?thesis by (cases r1) simp_all
  qed
qed

lemma install_dry_run: "dry_run self \<Longrightarrow> snd (install P self c ctx fs) = fs"
  by (simp add: install_def install_files_dry_run split: option.splits)

lemma write_root_file_dry_run: "dry_run self \<Longrightarrow> snd (write_root_file self p x fs) = fs"
  by (simp add: write_root_file_def split: sum.splits)

lemma run_frame:
  "\<forall>a\<in>set as. \<forall>fs. snd (a fs) = fs \<Longrightarrow> snd (run as fs) = fs"
proof (induction as)
  case Nil
  then show ?case by simp
next
  case (Cons a as)
  obtain r1 fs1 where a: "a fs = (r1, fs1)" by (cases "a fs")
  with Cons.prems have "fs1 = fs" by (metis list.set_intros(1) snd_conv)
  with a Cons show ?case by (cases r1) simp_all
qed

lemma cookiecutter_dry_run:
  assumes "dry_run self"
  shows "snd (snd (cookiecutter P self projectconfig fs)) = fs"
proof -
  let ?self1 = "self\<lparr>projectdir := path_join (projectdir self) ''{{cookiecutter.project_slug}}/''\<rparr>"
  have 1: "snd (run [write_root_file self (path_join (projectdir self) ''cookiecutter.json'')
                  (Json projectconfig),
                write_root_file self (path_join (projectdir self) ''README.md'')
                  (Text ''# Cookiecutter Template''),
                mkdir self ''{{cookiecutter.project_slug}}/''] fs) = fs"
    using assms by (intro run_frame) (simp add: write_root_file_dry_run mkdir_dry_run)
  have 2: "snd (run (map (\<lambda>comp. install P ?self1 comp (cookiecutterconfig projectconfig))
                          components_list) fs) = fs"
    using assms by (intro run_frame) (simp add: install_dry_run)
  from 1 2 show ?thesis
    by (auto simp: cookiecutter_def Let_def split: prod.splits sum.splits)
qed

lemma configure_makefile_ignores_dry_run:
  "configure_makefile P (self\<lparr>dry_run := b\<rparr>) use_sonar fs = configure_makefile P self use_sonar fs"
  by (simp add: configure_makefile_def)

text \<open>
  C3. In a dry run no file or directory is created or modified and the outcome is the
  one the real run would report. The code breaks this in the build-file reconfiguration
  that ends \<^verbatim>\<open>create\<close> (and \<^verbatim>\<open>manage\<close> with \<^verbatim>\<open>add_sonar\<close>), which does not read the
  flag. On a project that already has its Makefile, a dry run of \<^verbatim>\<open>create\<close> with the
  overwrite flag rewrites the Makefile: its content changes and the journal gains a
  write. On an empty disk a dry run of \<^verbatim>\<open>create\<close> raises \<^verbatim>\<open>FileNotFoundError\<close> for
  the Makefile it did not install, where the real run succeeds.
\<close>

theorem dry_run_create_rewrites_makefile:
  "dry_run demo_dry_session
   \<and> create demo_pkg demo_dry_session demo_config installed_fs
       = (Inr (),
          \<lparr>nodes =
             [((True, [''p'']), Dir), ((True, [''p'', ''demo'']), Dir),
              ((True, [''p'', ''demo'', ''__init__.py'']), File (Text ''# Demo'')),
              ((True, [''p'', ''Makefile'']), File (Text ''NAME=demo DOCKERSONAR=True''))],
           journal = journal installed_fs @ [WriteFile (True, [''p'', ''Makefile''])]\<rparr>)
   \<and> stat installed_fs (True, [''p'', ''Makefile'']) = Some (File (Text ''NAME=demo''))
   \<and> create demo_pkg (new_session demo_pkg ''/p'' False False True) demo_config empty_fs
       = (Inl (FileNotFoundError ''/p/Makefile''), empty_fs)
   \<and> fst (create demo_pkg (new_session demo_pkg ''/p'' False False False) demo_config empty_fs)
       = Inr ()"
  by code_simp

section \<open>The repository's tests\<close>

text \<open>
  The cases of \<^verbatim>\<open>tests/test_template.py\<close> that do not depend on the bundled files, run
  on the model: the two rendering tests of \<^verbatim>\<open>Jinja2RenderTest\<close>, and the four tests of
  \<^verbatim>\<open>__render\<close> against an existing target and a missing template. The tests pass an
  absolute target, which \<^verbatim>\<open>os.path.join\<close> keeps as it is.
\<close>

lemma test_render:
  "render_path ''{{project_slug}}/__init__.py''
     [(''project_slug'', Str ''projectname''), (''project_name'', Str ''Name'')]
     = Inr ''projectname/__init__.py''"
  by code_simp

lemma test_render_cc_templatevar:
  "render_path ''{{project_slug}}/__init__.py''
     [(''project_slug'', Str ''{{cookiecutter.project_name}}''), (''project_name'', Str ''Name'')]
     = Inr ''{{cookiecutter.project_name}}/__init__.py''"
  by code_simp

lemma test_render_exists:
  "render demo_pkg (new_session demo_pkg ''/tmp/t'' False False False)
     ''MANIFEST.in'' ''/tmp/t/tmp_file'' [] tmp_fs
     = (Inl (FileExistsError ''/tmp/t/tmp_file''), tmp_fs)"
  by code_simp

lemma test_render_skip:
  "render demo_pkg (new_session demo_pkg ''/tmp/t'' False True False)
     ''MANIFEST.in'' ''/tmp/t/tmp_file'' [] tmp_fs
     = (Inr (), tmp_fs)"
  by code_simp

lemma test_render_overwrite:
  "render demo_pkg (new_session demo_pkg ''/tmp/t'' True False False)
     ''MANIFEST.in'' ''/tmp/t/tmp_file'' [] tmp_fs
     = (Inr (),
        \<lparr>nodes = [((True, [''tmp'']), Dir), ((True, [''tmp'', ''t'']), Dir),
                  ((True, [''tmp'', ''t'', ''tmp_file'']), File (Text ''include README.md''))],
         journal = [WriteFile (True, [''tmp'', ''t'', ''tmp_file''])]\<rparr>)"
  by code_simp

lemma test_render_pkgexists:
  "render demo_pkg (new_session demo_pkg ''.'' False False False)
     ''non_existing_file'' project_fname [] tmp_fs
     = (Inl (FileNotFoundError ''template/non_existing_file''), tmp_fs)"
  by (simp add: render_def new_session_def pkg_exists_def demo_pkg_def path_join_def)

end
